theory Spec2Isabelle
  imports Complex_Main "HOL-Library.Multiset" "HOL-Library.Product_Lexorder"
begin

section \<open>Python strings\<close>

text \<open>
  A Python \<open>str\<close> is a sequence of code points. It is modelled as a HOL \<open>string\<close>
  whose characters are read as the code points U+0000 to U+00FF, so \<open>length\<close> counts
  code points as Python's \<open>len\<close> does. The character classes below are the ones
  CPython uses on that range:
  \<^item> \<open>str.split()\<close> and \<open>str.strip()\<close> without argument treat as whitespace the code
    points 9 to 13, 28 to 32, 133 (U+0085) and 160 (U+00A0);
  \<^item> \<open>str.isdigit()\<close> accepts the characters of Numeric_Type Decimal or Digit: the
    ASCII digits and the superscripts U+00B2, U+00B3 and U+00B9;
  \<^item> \<open>int()\<close> accepts only the decimal ones among them.
\<close>

definition is_space :: "char \<Rightarrow> bool" where
  "is_space c =
     (let n = (of_char c :: nat)
      in (9 \<le> n \<and> n \<le> 13) \<or> (28 \<le> n \<and> n \<le> 32) \<or> n = 133 \<or> n = 160)"

definition is_decimal :: "char \<Rightarrow> bool" where
  "is_decimal c = (let n = (of_char c :: nat) in 48 \<le> n \<and> n \<le> 57)"

definition is_digit :: "char \<Rightarrow> bool" where
  "is_digit c =
     (let n = (of_char c :: nat) in is_decimal c \<or> n = 178 \<or> n = 179 \<or> n = 185)"

text \<open>
  \<open>s.split()\<close>: the maximal runs of non-whitespace characters of \<open>s\<close>, in order.
  A character that starts or continues a word is put in front of the first word of the
  rest when the rest goes on with that word, and starts a word of its own otherwise.
\<close>

fun py_split :: "string \<Rightarrow> string list" where
  "py_split [] = []"
| "py_split (c # cs) =
     (if is_space c then py_split cs
      else (case cs of
              [] \<Rightarrow> [[c]]
            | d # _ \<Rightarrow>
                if is_space d then [c] # py_split cs
                else (case py_split cs of
                        [] \<Rightarrow> [[c]]
                      | w # ws \<Rightarrow> (c # w) # ws)))"

text \<open>\<open>sep.join(words)\<close>.\<close>

fun py_join :: "string \<Rightarrow> string list \<Rightarrow> string" where
  "py_join sep [] = []"
| "py_join sep [w] = w"
| "py_join sep (w # v # ws) = w @ sep @ py_join sep (v # ws)"

text \<open>\<open>s.strip()\<close>: whitespace removed at both ends.\<close>

definition py_strip :: "string \<Rightarrow> string" where
  "py_strip s = rev (dropWhile is_space (rev (dropWhile is_space s)))"

text \<open>
  \<open>s.replace(old, new)\<close> where \<open>old\<close> and \<open>new\<close> are strings of one character each,
  the only form the code uses: every occurrence of \<open>old\<close> becomes \<open>new\<close>.
\<close>

definition py_replace :: "char \<Rightarrow> char \<Rightarrow> string \<Rightarrow> string" where
  "py_replace old new s = map (\<lambda>c. if c = old then new else c) s"

text \<open>\<open>s.isdigit()\<close>: at least one character, and every character a digit.\<close>

definition py_isdigit :: "string \<Rightarrow> bool" where
  "py_isdigit s = (s \<noteq> [] \<and> list_all is_digit s)"

section \<open>Text cleaning (RoundsVersion2/easyocr_server/app.py)\<close>

text \<open>
  The dictionary \<open>corrections\<close> of \<open>clean_golf_text\<close>, in insertion order, which is the
  order \<open>corrections.items()\<close> is iterated in. Keys and values are strings of one
  character.
\<close>

definition corrections :: "(char \<times> char) list" where
  "corrections =
     [(CHR ''O'', CHR ''0''), (CHR ''o'', CHR ''0''), (CHR ''l'', CHR ''1''),
      (CHR ''I'', CHR ''1''), (CHR ''S'', CHR ''5''), (CHR ''G'', CHR ''6''),
      (CHR ''B'', CHR ''8''), (CHR ''|'', CHR ''1'')]"

text \<open>\<open>c in corrections\<close> for a character \<open>c\<close>.\<close>

definition in_corrections :: "char \<Rightarrow> bool" where
  "in_corrections c = (map_of corrections c \<noteq> None)"

text \<open>
  The body of the loop \<open>for word in words\<close>: the word that is appended to
  \<open>corrected_words\<close>. In the first branch the word has one character, so
  \<open>corrections[word]\<close> is the entry of that character; the lookup cannot fail there.
\<close>

definition correct_word :: "string \<Rightarrow> string" where
  "correct_word word =
     (if length word = 1 \<and> in_corrections (hd word)
      then (case map_of corrections (hd word) of Some d \<Rightarrow> [d] | None \<Rightarrow> word)
      else if length word \<le> 3 \<and> list_ex in_corrections word
      then fold (\<lambda>(old_char, new_char) corrected_word.
                   py_replace old_char new_char corrected_word) corrections word
      else word)"

definition clean_golf_text :: "string \<Rightarrow> string" where
  "clean_golf_text text =
     (if text = [] then []
      else
        let cleaned = py_join '' '' (py_split text);
            words = py_split cleaned;
            corrected_words = map correct_word words
        in py_join '' '' corrected_words)"

text \<open>
  What the second branch does to one character: the replacements are by digits, which
  are no keys of the dictionary, so the eight \<open>replace\<close> calls in a row amount to one
  pass that looks every character up (lemma \<open>fold_replace\<close> below).
\<close>

definition corrected_char :: "char \<Rightarrow> char" where
  "corrected_char c = (case map_of corrections c of Some d \<Rightarrow> d | None \<Rightarrow> c)"

section \<open>Detections\<close>

text \<open>
  Python floats are modelled as real numbers: sums and means are exact, and there is
  no NaN. The recogniser's result is a list of triples \<open>(bbox, text, confidence)\<close>
  where \<open>bbox\<close> holds the four corners of the region, clockwise from the top left;
  \<open>bbox[0]\<close> is \<open>corner0\<close> and \<open>bbox[2]\<close> is \<open>corner2\<close>.
\<close>

type_synonym point = "real \<times> real"

record region =
  corner0 :: point
  corner1 :: point
  corner2 :: point
  corner3 :: point

record raw_detection =
  raw_bbox :: region
  raw_text :: string
  raw_confidence :: real

record bbox =
  bbox_x :: real
  bbox_y :: real
  bbox_width :: real
  bbox_height :: real

record detection =
  det_text :: string
  det_confidence :: real
  det_bbox :: bbox

text \<open>The dictionary \<open>'bbox'\<close> both variants build from a region.\<close>

definition bbox_of_region :: "region \<Rightarrow> bbox" where
  "bbox_of_region r =
     (let top_left = corner0 r; bottom_right = corner2 r
      in \<lparr>bbox_x = fst top_left, bbox_y = snd top_left,
          bbox_width = fst bottom_right - fst top_left,
          bbox_height = snd bottom_right - snd top_left\<rparr>)"

text \<open>
  easyocr_server/app.py, the loop of \<open>perform_ocr\<close>: the text is taken as recognised.
\<close>

definition detection_of_raw :: "raw_detection \<Rightarrow> detection" where
  "detection_of_raw r =
     \<lparr>det_text = raw_text r, det_confidence = raw_confidence r,
      det_bbox = bbox_of_region (raw_bbox r)\<rparr>"

text \<open>
  RoundsVersion2/easyocr_server/app.py, the loop of \<open>extract_text_with_confidence\<close>:
  the text is cleaned.
\<close>

definition cleaned_detection_of_raw :: "raw_detection \<Rightarrow> detection" where
  "cleaned_detection_of_raw r =
     \<lparr>det_text = clean_golf_text (raw_text r), det_confidence = raw_confidence r,
      det_bbox = bbox_of_region (raw_bbox r)\<rparr>"

text \<open>
  \<open>xs.sort(key=f)\<close> is a stable sort, here the stable insertion sort \<open>sort_key\<close> of the
  library. With \<open>reverse=True\<close> CPython reverses the list, sorts it the same way and
  reverses the result, which keeps elements of equal key in their input order.
\<close>

definition py_sort_reverse :: "('a \<Rightarrow> 'k::linorder) \<Rightarrow> 'a list \<Rightarrow> 'a list" where
  "py_sort_reverse f xs = rev (sort_key f (rev xs))"

definition extract_text_with_confidence :: "raw_detection list \<Rightarrow> detection list" where
  "extract_text_with_confidence results =
     (let detections = map cleaned_detection_of_raw results
      in py_sort_reverse det_confidence detections)"

section \<open>Score extraction (easyocr_server/app.py)\<close>

text \<open>An exception is its class and its message; \<open>str(e)\<close> is the message.\<close>

datatype py_exception =
    ValueError string
  | TypeError string
  | KeyError string
  | AttributeError string
  | OtherError string

fun str_exc :: "py_exception \<Rightarrow> string" where
  "str_exc (ValueError m) = m"
| "str_exc (TypeError m) = m"
| "str_exc (KeyError m) = m"
| "str_exc (AttributeError m) = m"
| "str_exc (OtherError m) = m"

text \<open>
  A string between single quotes, as the messages of the exceptions show a name, or
  \<open>repr\<close> a string without quotes and control characters.
\<close>

definition quoted :: "string \<Rightarrow> string" where
  "quoted s = [CHR 0x27] @ s @ [CHR 0x27]"

text \<open>
  \<open>int(s)\<close> on the strings the code passes to it, those for which \<open>s.isdigit()\<close> holds:
  the value of a string of decimal digits, and a \<open>ValueError\<close> when a character is a
  digit that is not decimal. (The forms \<open>int\<close> accepts beyond that, with a sign,
  underscores or surrounding whitespace, never pass \<open>isdigit\<close>. The interpreter's
  limit on the number of digits of a literal is not modelled.)
\<close>

definition py_int :: "string \<Rightarrow> py_exception + int" where
  "py_int s =
     (if s \<noteq> [] \<and> list_all is_decimal s
      then Inr (foldl (\<lambda>acc c. 10 * acc + (int (of_char c) - 48)) 0 s)
      else Inl (ValueError (''invalid literal for int() with base 10: '' @ quoted s)))"

record score_candidate =
  cand_score :: int
  cand_confidence :: real
  cand_bbox :: bbox

text \<open>
  Lines 106 to 117, the loop over \<open>detections\<close> that fills \<open>potential_scores\<close>. The
  condition is evaluated left to right: \<open>int(text)\<close> is reached only when
  \<open>text.isdigit()\<close> holds, and an exception it raises leaves the loop.
\<close>

fun potential_scores :: "detection list \<Rightarrow> py_exception + score_candidate list" where
  "potential_scores [] = Inr []"
| "potential_scores (d # ds) =
     (let text = py_strip (det_text d); confidence = det_confidence d
      in if py_isdigit text
         then (case py_int text of
                 Inl e \<Rightarrow> Inl e
               | Inr n \<Rightarrow>
                   if 1 \<le> n \<and> n \<le> 12 \<and> confidence > 0.5
                   then (case potential_scores ds of
                           Inl e \<Rightarrow> Inl e
                         | Inr rest \<Rightarrow>
                             Inr (\<lparr>cand_score = n, cand_confidence = confidence,
                                   cand_bbox = det_bbox d\<rparr> # rest))
                   else potential_scores ds)
         else potential_scores ds)"

text \<open>JSON values as \<open>json.loads\<close> gives them.\<close>

datatype json =
    JNull
  | JBool bool
  | JInt int
  | JFloat real
  | JStr string
  | JArr "json list"
  | JObj "(string \<times> json) list"

text \<open>
  \<open>xs[:h]\<close> for an integer \<open>h\<close>: the first \<open>h\<close> elements, and for a negative \<open>h\<close> all
  but the last \<open>-h\<close>.
\<close>

definition py_slice_to :: "'a list \<Rightarrow> int \<Rightarrow> 'a list" where
  "py_slice_to xs h =
     (if 0 \<le> h then take (nat h) xs else take (length xs - nat (- h)) xs)"

text \<open>
  \<open>xs[:stop]\<close> for the value of \<open>expected_holes\<close> of the request: \<open>None\<close> takes the
  whole list, a boolean counts as 0 or 1, any other non-integer raises.
\<close>

definition slice_upto :: "'a list \<Rightarrow> json \<Rightarrow> py_exception + 'a list" where
  "slice_upto xs stop =
     (case stop of
        JNull \<Rightarrow> Inr xs
      | JInt h \<Rightarrow> Inr (py_slice_to xs h)
      | JBool b \<Rightarrow> Inr (py_slice_to xs (if b then 1 else 0))
      | _ \<Rightarrow> Inl (TypeError
                ''slice indices must be integers or None or have an __index__ method''))"

text \<open>\<open>np.mean\<close> of a list of floats. The code calls it on non-empty lists only.\<close>

definition np_mean :: "real list \<Rightarrow> real" where
  "np_mean xs = sum_list xs / real (length xs)"

text \<open>The sort key of line 120.\<close>

definition position_key :: "score_candidate \<Rightarrow> real \<times> real" where
  "position_key x = (bbox_y (cand_bbox x), bbox_x (cand_bbox x))"

record score_report =
  rep_scores :: "int list"
  rep_total :: int
  rep_confidence :: real
  rep_holes_found :: nat
  rep_expected_holes :: json

text \<open>
  Lines 105 to 136: from the detections and the value of \<open>expected_holes\<close> to the
  fields of the response, or to the exception that reaches the handler.
\<close>

definition score_report_of :: "detection list \<Rightarrow> json \<Rightarrow> py_exception + score_report" where
  "score_report_of detections expected_holes =
     (case potential_scores detections of
        Inl e \<Rightarrow> Inl e
      | Inr found \<Rightarrow>
          (case slice_upto (sort_key position_key found) expected_holes of
             Inl e \<Rightarrow> Inl e
           | Inr taken \<Rightarrow>
               let scores = map cand_score taken;
                   avg_confidence =
                     (if scores \<noteq> [] then np_mean (map cand_confidence taken) else 0)
               in Inr \<lparr>rep_scores = scores, rep_total = sum_list scores,
                       rep_confidence = avg_confidence,
                       rep_holes_found = length scores,
                       rep_expected_holes = expected_holes\<rparr>))"

section \<open>The request handlers\<close>

text \<open>
  The three shapes of dictionary the handlers pass to \<open>jsonify\<close>:
  \<^item> \<open>{'success': False, 'error': ..., 'processing_time': ...}\<close>;
  \<^item> \<open>{'success': True, 'detections': ..., 'processing_time': ..., 'message': ...}\<close>;
  \<^item> \<open>{'success': True, 'scores': ..., 'total': ..., 'confidence': ...,
     'holes_found': ..., 'expected_holes': ..., 'processing_time': ...}\<close>.
\<close>

datatype body =
    ErrorBody string real
  | OcrBody "detection list" real string
  | ScoreBody score_report real

fun body_success :: "body \<Rightarrow> bool" where
  "body_success (ErrorBody err t) = False"
| "body_success (OcrBody detections t msg) = True"
| "body_success (ScoreBody report t) = True"

fun body_keys :: "body \<Rightarrow> string list" where
  "body_keys (ErrorBody err t) = [''success'', ''error'', ''processing_time'']"
| "body_keys (OcrBody detections t msg) =
     [''success'', ''detections'', ''processing_time'', ''message'']"
| "body_keys (ScoreBody report t) =
     [''success'', ''scores'', ''total'', ''confidence'', ''holes_found'',
      ''expected_holes'', ''processing_time'']"

text \<open>
  What a view function returns, and what Flask sends for it: a response object made
  by \<open>jsonify\<close> and a dictionary are sent with status 200, a pair of a response and a
  status with that status.
\<close>

datatype view_return =
    Response body
  | ResponseStatus body nat
  | Dict body

fun http_status :: "view_return \<Rightarrow> nat" where
  "http_status (Response b) = 200"
| "http_status (ResponseStatus b code) = code"
| "http_status (Dict b) = 200"

fun http_body :: "view_return \<Rightarrow> body" where
  "http_body (Response b) = b"
| "http_body (ResponseStatus b code) = b"
| "http_body (Dict b) = b"

text \<open>\<open>str(n)\<close> for a length, in the messages of the success responses.\<close>

fun str_nat :: "nat \<Rightarrow> string" where
  "str_nat n =
     (if n < 10 then [char_of (48 + n)]
      else str_nat (n div 10) @ [char_of (48 + n mod 10)])"

declare str_nat.simps [simp del]

text \<open>
  The handlers take what they read from their surroundings as arguments:
  \<^item> \<open>request_json\<close>, what evaluating \<open>request.json\<close> gives: the parsed JSON document
    of the body, of any kind, or the exception Flask raises when the body is no JSON
    (a content type that is not JSON, a body that does not parse). The handlers read
    \<open>request.json\<close> inside their \<open>try\<close>, so the exception reaches their \<open>except\<close>.
  \<^item> \<open>decode\<close>, the decoding of the image (\<open>base64.b64decode\<close>, \<open>Image.open\<close>,
    \<open>cv2.cvtColor\<close>), \<open>preprocess\<close> (\<open>preprocess_image\<close>) and \<open>readtext\<close>
    (\<open>reader.readtext\<close>), each of which returns or raises;
  \<^item> \<open>start_time\<close>, and \<open>now\<close>, the clock when the response is built.
\<close>

text \<open>The name of the Python type of a JSON value, as the messages of exceptions show it.\<close>

fun py_type_name :: "json \<Rightarrow> string" where
  "py_type_name JNull = ''NoneType''"
| "py_type_name (JBool b) = ''bool''"
| "py_type_name (JInt n) = ''int''"
| "py_type_name (JFloat r) = ''float''"
| "py_type_name (JStr s) = ''str''"
| "py_type_name (JArr xs) = ''list''"
| "py_type_name (JObj obj) = ''dict''"

text \<open>
  The truth value of a JSON value, for \<open>not request.json\<close>: \<open>None\<close>, \<open>False\<close>, zero and
  the empty string, list and dictionary are false.
\<close>

fun py_truthy :: "json \<Rightarrow> bool" where
  "py_truthy JNull = False"
| "py_truthy (JBool b) = b"
| "py_truthy (JInt n) = (n \<noteq> 0)"
| "py_truthy (JFloat r) = (r \<noteq> 0)"
| "py_truthy (JStr s) = (s \<noteq> [])"
| "py_truthy (JArr xs) = (xs \<noteq> [])"
| "py_truthy (JObj obj) = (obj \<noteq> [])"

text \<open>\<open>needle in haystack\<close> for two strings: \<open>needle\<close> occurs in \<open>haystack\<close>.\<close>

fun py_str_contains :: "string \<Rightarrow> string \<Rightarrow> bool" where
  "py_str_contains needle [] = (needle = [])"
| "py_str_contains needle (c # cs) =
     (take (length needle) (c # cs) = needle \<or> py_str_contains needle cs)"

text \<open>
  \<open>key in value\<close> for a string \<open>key\<close>: a key of a dictionary, a substring of a string,
  an element of a list; a number, a boolean and \<open>None\<close> are not iterable.
\<close>

fun py_in :: "string \<Rightarrow> json \<Rightarrow> py_exception + bool" where
  "py_in key (JObj obj) = Inr (key \<in> set (map fst obj))"
| "py_in key (JStr s) = Inr (py_str_contains key s)"
| "py_in key (JArr xs) = Inr (JStr key \<in> set xs)"
| "py_in key v =
     Inl (TypeError (''argument of type '' @ quoted (py_type_name v) @ '' is not iterable''))"

text \<open>\<open>value[key]\<close> for a string \<open>key\<close>: only a dictionary is indexed by a string.\<close>

fun py_getitem :: "json \<Rightarrow> string \<Rightarrow> py_exception + json" where
  "py_getitem (JObj obj) key =
     (case map_of obj key of None \<Rightarrow> Inl (KeyError (quoted key)) | Some v \<Rightarrow> Inr v)"
| "py_getitem (JStr s) key = Inl (TypeError ''string indices must be integers'')"
| "py_getitem (JArr xs) key =
     Inl (TypeError ''list indices must be integers or slices, not str'')"
| "py_getitem v key =
     Inl (TypeError (quoted (py_type_name v) @ '' object is not subscriptable''))"

definition missing_image :: "real \<Rightarrow> real \<Rightarrow> view_return" where
  "missing_image start_time now =
     ResponseStatus (ErrorBody ''Missing image data in request'' (now - start_time)) 400"

definition ocr_failed :: "py_exception \<Rightarrow> real \<Rightarrow> real \<Rightarrow> view_return" where
  "ocr_failed e start_time now =
     ResponseStatus
       (ErrorBody (''OCR processing failed: '' @ str_exc e) (now - start_time)) 500"

definition invalid_image :: "py_exception \<Rightarrow> real \<Rightarrow> real \<Rightarrow> view_return" where
  "invalid_image e start_time now =
     ResponseStatus
       (ErrorBody (''Invalid image data: '' @ str_exc e) (now - start_time)) 400"

text \<open>
  \<open>perform_ocr\<close> of easyocr_server/app.py. Every exception raised in the \<open>try\<close>, the one
  of \<open>request.json\<close>, of \<open>in\<close> and of the indexing included, is answered by the \<open>except\<close>.
\<close>

definition perform_ocr ::
  "(json \<Rightarrow> py_exception + 'img) \<Rightarrow> ('img \<Rightarrow> py_exception + raw_detection list) \<Rightarrow>
   real \<Rightarrow> real \<Rightarrow> py_exception + json \<Rightarrow> view_return" where
  "perform_ocr decode readtext start_time now request_json =
     (case request_json of
        Inl e \<Rightarrow> ocr_failed e start_time now
      | Inr data \<Rightarrow>
          if \<not> py_truthy data then missing_image start_time now
          else (case py_in ''image'' data of
                  Inl e \<Rightarrow> ocr_failed e start_time now
                | Inr has_image \<Rightarrow>
                    if \<not> has_image then missing_image start_time now
                    else (case py_getitem data ''image'' of
                            Inl e \<Rightarrow> ocr_failed e start_time now
                          | Inr image_b64 \<Rightarrow>
                              (case decode image_b64 of
                                 Inl e \<Rightarrow> ocr_failed e start_time now
                               | Inr cv_image \<Rightarrow>
                                   (case readtext cv_image of
                                      Inl e \<Rightarrow> ocr_failed e start_time now
                                    | Inr results \<Rightarrow>
                                        let detections = map detection_of_raw results
                                        in Response
                                             (OcrBody detections (now - start_time)
                                                (''Found '' @ str_nat (length detections)
                                                   @ '' text elements'')))))))"

text \<open>
  \<open>perform_ocr\<close> of RoundsVersion2/easyocr_server/app.py: the indexing and the decoding
  are in a \<open>try\<close> of their own, whose \<open>except\<close> answers with 400; the image is
  preprocessed, the detections are cleaned and ranked.
\<close>

definition perform_ocr_rv2 ::
  "(json \<Rightarrow> py_exception + 'img) \<Rightarrow> ('img \<Rightarrow> py_exception + 'img) \<Rightarrow>
   ('img \<Rightarrow> py_exception + raw_detection list) \<Rightarrow>
   real \<Rightarrow> real \<Rightarrow> py_exception + json \<Rightarrow> view_return" where
  "perform_ocr_rv2 decode preprocess readtext start_time now request_json =
     (case request_json of
        Inl e \<Rightarrow> ocr_failed e start_time now
      | Inr data \<Rightarrow>
          if \<not> py_truthy data then missing_image start_time now
          else (case py_in ''image'' data of
                  Inl e \<Rightarrow> ocr_failed e start_time now
                | Inr has_image \<Rightarrow>
                    if \<not> has_image then missing_image start_time now
                    else (case py_getitem data ''image'' of
                            Inl e \<Rightarrow> invalid_image e start_time now
                          | Inr image_b64 \<Rightarrow>
                              (case decode image_b64 of
                                 Inl e \<Rightarrow> invalid_image e start_time now
                               | Inr cv_image \<Rightarrow>
                                   (case preprocess cv_image of
                                      Inl e \<Rightarrow> ocr_failed e start_time now
                                    | Inr processed_image \<Rightarrow>
                                        (case readtext processed_image of
                                           Inl e \<Rightarrow> ocr_failed e start_time now
                                         | Inr results \<Rightarrow>
                                             let detections =
                                                   extract_text_with_confidence results
                                             in Response
                                                  (OcrBody detections (now - start_time)
                                                     (''Successfully processed ''
                                                        @ str_nat (length detections)
                                                        @ '' text detections''))))))))"

text \<open>
  \<open>extract_scores\<close> of easyocr_server/app.py. Lines 93 to 97 read the dictionary out of
  what \<open>perform_ocr\<close> returned: a response object has the attribute \<open>json\<close>, a pair has
  not and its first component is asked with \<open>get_json()\<close>, and anything else would be
  asked with \<open>get_json()\<close> itself.
\<close>

definition ocr_data_of :: "view_return \<Rightarrow> py_exception + body" where
  "ocr_data_of ocr_response =
     (case ocr_response of
        Response b \<Rightarrow> Inr b
      | ResponseStatus b code \<Rightarrow> Inr b
      | Dict b \<Rightarrow>
          Inl (AttributeError
                 (quoted ''dict'' @ '' object has no attribute '' @ quoted ''get_json'')))"

definition extraction_failed :: "py_exception \<Rightarrow> real \<Rightarrow> real \<Rightarrow> view_return" where
  "extraction_failed e start_time now =
     ResponseStatus
       (ErrorBody (''Score extraction failed: '' @ str_exc e) (now - start_time)) 500"

text \<open>\<open>request.json.get('expected_holes', 18)\<close>.\<close>

definition expected_holes_of :: "py_exception + json \<Rightarrow> py_exception + json" where
  "expected_holes_of request_json =
     (case request_json of
        Inl e \<Rightarrow> Inl e
      | Inr (JObj obj) \<Rightarrow>
          Inr (case map_of obj ''expected_holes'' of None \<Rightarrow> JInt 18 | Some v \<Rightarrow> v)
      | Inr v \<Rightarrow>
          Inl (AttributeError
                 (quoted (py_type_name v) @ '' object has no attribute '' @ quoted ''get'')))"

definition extract_scores ::
  "(json \<Rightarrow> py_exception + 'img) \<Rightarrow> ('img \<Rightarrow> py_exception + raw_detection list) \<Rightarrow>
   real \<Rightarrow> real \<Rightarrow> real \<Rightarrow> real \<Rightarrow> py_exception + json \<Rightarrow> view_return" where
  "extract_scores decode readtext ocr_start_time ocr_now start_time now request_json =
     (let ocr_response = perform_ocr decode readtext ocr_start_time ocr_now request_json
      in case ocr_data_of ocr_response of
           Inl e \<Rightarrow> extraction_failed e start_time now
         | Inr ocr_data \<Rightarrow>
             if \<not> body_success ocr_data then Dict ocr_data
             else (case ocr_data of
                     OcrBody detections t msg \<Rightarrow>
                       (case expected_holes_of request_json of
                          Inl e \<Rightarrow> extraction_failed e start_time now
                        | Inr expected_holes \<Rightarrow>
                            (case score_report_of detections expected_holes of
                               Inl e \<Rightarrow> extraction_failed e start_time now
                             | Inr report \<Rightarrow>
                                 Response (ScoreBody report (now - start_time))))
                   | _ \<Rightarrow> extraction_failed (KeyError (quoted ''detections'')) start_time now))"

section \<open>The vocabulary of the specification\<close>

text \<open>
  The filter as the specification words it: the trimmed text consists of decimal
  digits only, it parses to an integer from 1 to 12, and the confidence is greater
  than 0.5.
\<close>

definition valid_candidate :: "detection \<Rightarrow> bool" where
  "valid_candidate d =
     (let text = py_strip (det_text d)
      in list_all is_decimal text \<and>
         (case py_int text of Inl e \<Rightarrow> False | Inr n \<Rightarrow> 1 \<le> n \<and> n \<le> 12) \<and>
         det_confidence d > 0.5)"

text \<open>The candidate a kept detection gives.\<close>

definition candidate_of :: "detection \<Rightarrow> score_candidate" where
  "candidate_of d =
     \<lparr>cand_score = (case py_int (py_strip (det_text d)) of Inl e \<Rightarrow> 0 | Inr n \<Rightarrow> n),
      cand_confidence = det_confidence d, cand_bbox = det_bbox d\<rparr>"

text \<open>
  The detections on which \<open>int(text)\<close> raises: the trimmed text passes \<open>isdigit\<close> and
  holds a digit that is not decimal. \<open>int_error\<close> is the exception raised.
\<close>

definition int_raises :: "detection \<Rightarrow> bool" where
  "int_raises d =
     (let text = py_strip (det_text d)
      in py_isdigit text \<and> \<not> list_all is_decimal text)"

definition int_error :: "detection \<Rightarrow> py_exception" where
  "int_error d =
     ValueError
       (''invalid literal for int() with base 10: '' @ quoted (py_strip (det_text d)))"

text \<open>
  The report of the specification for the candidates that contribute: their scores,
  the sum, the mean of their confidences or 0 when there is none, and their number.
\<close>

definition report_of :: "score_candidate list \<Rightarrow> json \<Rightarrow> score_report" where
  "report_of taken expected_holes =
     \<lparr>rep_scores = map cand_score taken, rep_total = sum_list (map cand_score taken),
      rep_confidence = (if taken = [] then 0
                        else sum_list (map cand_confidence taken) / real (length taken)),
      rep_holes_found = length taken, rep_expected_holes = expected_holes\<rparr>"

text \<open>
  A request body without the field \<open>image\<close>: a body that is no JSON, a JSON document
  that is no object, or an object without the key.
\<close>

definition lacks_image :: "py_exception + json \<Rightarrow> bool" where
  "lacks_image request_json =
     (case request_json of
        Inl e \<Rightarrow> True
      | Inr (JObj obj) \<Rightarrow> ''image'' \<notin> set (map fst obj)
      | Inr v \<Rightarrow> True)"

text \<open>
  The bodies without the field that the test of the handlers recognises: \<open>null\<close>,
  \<open>false\<close>, a zero, an object without the key \<open>image\<close>, a string in which \<open>image\<close>
  does not occur and an array of which \<open>"image"\<close> is no element.
\<close>

fun image_seen_missing :: "json \<Rightarrow> bool" where
  "image_seen_missing JNull = True"
| "image_seen_missing (JBool b) = (\<not> b)"
| "image_seen_missing (JInt n) = (n = 0)"
| "image_seen_missing (JFloat r) = (r = 0)"
| "image_seen_missing (JStr s) = (\<not> py_str_contains ''image'' s)"
| "image_seen_missing (JArr xs) = (JStr ''image'' \<notin> set xs)"
| "image_seen_missing (JObj obj) = (''image'' \<notin> set (map fst obj))"

text \<open>The response the specification gives for a body without the field.\<close>

definition is_missing_image_response :: "view_return \<Rightarrow> real \<Rightarrow> bool" where
  "is_missing_image_response r elapsed =
     (http_status r = 400 \<and>
      http_body r = ErrorBody ''Missing image data in request'' elapsed \<and>
      \<not> body_success (http_body r) \<and>
      ''processing_time'' \<in> set (body_keys (http_body r)) \<and>
      ''detections'' \<notin> set (body_keys (http_body r)))"

text \<open>The three detections of the end-to-end example, and a detection with its text cleaned.\<close>

definition example_detections :: "detection list" where
  "example_detections =
     [\<lparr>det_text = ''4'', det_confidence = 0.9,
       det_bbox = \<lparr>bbox_x = 10, bbox_y = 10, bbox_width = 5, bbox_height = 5\<rparr>\<rparr>,
      \<lparr>det_text = ''S'', det_confidence = 0.7,
       det_bbox = \<lparr>bbox_x = 50, bbox_y = 10, bbox_width = 5, bbox_height = 5\<rparr>\<rparr>,
      \<lparr>det_text = ''par'', det_confidence = 0.99,
       det_bbox = \<lparr>bbox_x = 0, bbox_y = 0, bbox_width = 20, bbox_height = 10\<rparr>\<rparr>]"

definition cleaned :: "detection \<Rightarrow> detection" where
  "cleaned d = d\<lparr>det_text := clean_golf_text (det_text d)\<rparr>"

text \<open>Three scores that are not detected in reading order, and one on a lower row.\<close>

definition scattered_detections :: "detection list" where
  "scattered_detections =
     [\<lparr>det_text = ''7'', det_confidence = 0.9,
       det_bbox = \<lparr>bbox_x = 50, bbox_y = 10, bbox_width = 5, bbox_height = 5\<rparr>\<rparr>,
      \<lparr>det_text = ''5'', det_confidence = 0.6,
       det_bbox = \<lparr>bbox_x = 0, bbox_y = 20, bbox_width = 5, bbox_height = 5\<rparr>\<rparr>,
      \<lparr>det_text = '' 3 '', det_confidence = 0.8,
       det_bbox = \<lparr>bbox_x = 10, bbox_y = 10, bbox_width = 5, bbox_height = 5\<rparr>\<rparr>,
      \<lparr>det_text = ''13'', det_confidence = 0.95,
       det_bbox = \<lparr>bbox_x = 0, bbox_y = 0, bbox_width = 5, bbox_height = 5\<rparr>\<rparr>]"

text \<open>A region recognised as the superscript two (U+00B2).\<close>

definition superscript_two :: "raw_detection" where
  "superscript_two =
     \<lparr>raw_bbox = \<lparr>corner0 = (10, 10), corner1 = (15, 10),
                  corner2 = (15, 15), corner3 = (10, 15)\<rparr>,
      raw_text = [CHR 0xB2], raw_confidence = 0.9\<rparr>"

section \<open>Properties of the text cleaning\<close>

subsection \<open>Splitting and joining\<close>

lemma py_split_whitespace: "list_all is_space s \<Longrightarrow> py_split s = []"
  by (induction s) simp_all

lemma py_split_words:
  "w \<in> set (py_split s) \<Longrightarrow> w \<noteq> [] \<and> (\<forall>c\<in>set w. \<not> is_space c)"
proof (induction s arbitrary: w)
  case Nil
  then show ?case by simp
next
  case (Cons c cs)
  show ?case
  proof (cases "is_space c")
    case True
    with Cons show ?thesis by simp
  next
    case False
    note nsp = this
    show ?thesis
    proof (cases cs)
      case Nil
      with Cons.prems nsp show ?thesis by simp
    next
      case (Cons d ds)
      note cs = this
      show ?thesis
      proof (cases "is_space d")
        case True
        with Cons.prems Cons.IH nsp cs show ?thesis by auto
      next
        case False
        show ?thesis
        proof (cases "py_split cs")
          case Nil
          with Cons.prems nsp cs False show ?thesis by simp
        next
          case (Cons v vs)
          with Cons.prems nsp cs False have "w = c # v \<or> w \<in> set vs" by simp
          moreover have "v \<in> set (py_split cs)" "set vs \<subseteq> set (py_split cs)"
            using Cons by auto
          ultimately show ?thesis using Cons.IH nsp by auto
        qed
      qed
    qed
  qed
qed

lemma py_split_word_append:
  "w \<noteq> [] \<Longrightarrow> \<forall>c\<in>set w. \<not> is_space c \<Longrightarrow> rest = [] \<or> is_space (hd rest) \<Longrightarrow>
   py_split (w @ rest) = w # py_split rest"
proof (induction w)
  case Nil
  then show ?case by simp
next
  case (Cons a w)
  show ?case
  proof (cases w)
    case Nil
    with Cons.prems show ?thesis by (cases rest) simp_all
  next
    case (Cons b w')
    with Cons.IH Cons.prems show ?thesis by simp
  qed
qed

lemma py_split_join:
  "\<forall>w\<in>set ws. w \<noteq> [] \<and> (\<forall>c\<in>set w. \<not> is_space c) \<Longrightarrow>
   py_split (py_join '' '' ws) = ws"
proof (induction ws)
  case Nil
  then show ?case by simp
next
  case (Cons w ws)
  show ?case
  proof (cases ws)
    case Nil
    with Cons.prems show ?thesis using py_split_word_append[of w "[]"] by simp
  next
    case (Cons v vs)
    have sp: "is_space (CHR '' '')" by (simp add: is_space_def)
    have "py_split (w @ '' '' @ py_join '' '' ws) = w # py_split ('' '' @ py_join '' '' ws)"
      using Cons.prems sp by (intro py_split_word_append) simp_all
    also have "py_split ('' '' @ py_join '' '' ws) = py_split (py_join '' '' ws)"
      using sp by simp
    also have "\<dots> = ws" using Cons.IH Cons.prems by simp
    finally show ?thesis using Cons by simp
  qed
qed

subsection \<open>Correcting a word\<close>

lemma in_corrections_iff:
  "in_corrections c \<longleftrightarrow>
     c \<in> {CHR ''O'', CHR ''o'', CHR ''l'', CHR ''I'', CHR ''S'', CHR ''G'', CHR ''B'', CHR ''|''}"
  by (simp add: in_corrections_def corrections_def)

lemma corrected_char_no_key: "\<not> in_corrections (corrected_char c)"
  by (simp add: corrected_char_def in_corrections_iff corrections_def)

lemma corrected_char_no_space: "\<not> is_space c \<Longrightarrow> \<not> is_space (corrected_char c)"
  by (simp add: corrected_char_def corrections_def is_space_def)

lemma fold_replace:
  "fold (\<lambda>(old_char, new_char) corrected_word.
           py_replace old_char new_char corrected_word) corrections w = map corrected_char w"
  by (simp add: corrections_def py_replace_def corrected_char_def)

lemma correct_word_cases:
  "correct_word w =
     (if length w \<le> 3 \<and> list_ex in_corrections w then map corrected_char w else w)"
proof (cases "length w = 1 \<and> in_corrections (hd w)")
  case True
  then obtain c where w: "w = [c]" and k: "in_corrections c"
    by (cases w) auto
  from k obtain d where d: "map_of corrections c = Some d"
    by (auto simp: in_corrections_def)
  with w k show ?thesis by (simp add: correct_word_def corrected_char_def)
next
  case False
  then show ?thesis by (auto simp: correct_word_def fold_replace)
qed

lemma correct_word_idem: "correct_word (correct_word w) = correct_word w"
proof -
  have "\<not> list_ex in_corrections (map corrected_char w)"
    by (simp add: list_ex_iff corrected_char_no_key)
  then show ?thesis by (simp add: correct_word_cases)
qed

lemma correct_word_is_word:
  assumes "w \<noteq> []" "\<forall>c\<in>set w. \<not> is_space c"
  shows "correct_word w \<noteq> [] \<and> (\<forall>c\<in>set (correct_word w). \<not> is_space c)"
  using assms by (auto simp: correct_word_cases corrected_char_no_space)

subsection \<open>The cleaned text\<close>

lemma clean_golf_text_eq:
  "clean_golf_text s = py_join '' '' (map correct_word (py_split s))"
proof -
  have "py_split (py_join '' '' (py_split s)) = py_split s"
    by (rule py_split_join) (use py_split_words in blast)
  then show ?thesis by (simp add: clean_golf_text_def)
qed

lemma corrected_words_are_words:
  "\<forall>w\<in>set (map correct_word (py_split s)). w \<noteq> [] \<and> (\<forall>c\<in>set w. \<not> is_space c)"
proof
  fix w assume "w \<in> set (map correct_word (py_split s))"
  then obtain v where v: "v \<in> set (py_split s)" and w: "w = correct_word v" by auto
  from py_split_words[OF v] have "v \<noteq> []" "\<forall>c\<in>set v. \<not> is_space c" by simp_all
  then show "w \<noteq> [] \<and> (\<forall>c\<in>set w. \<not> is_space c)"
    unfolding w by (rule correct_word_is_word)
qed

text \<open>
  Claim C6. Cleaning is idempotent: for every string \<open>s\<close>, cleaning the cleaned string
  gives the cleaned string again.
\<close>

theorem clean_golf_text_idempotent:
  "clean_golf_text (clean_golf_text s) = clean_golf_text s"
proof -
  let ?W = "map correct_word (py_split s)"
  have "clean_golf_text (py_join '' '' ?W) =
          py_join '' '' (map correct_word (py_split (py_join '' '' ?W)))"
    by (rule clean_golf_text_eq)
  also have "py_split (py_join '' '' ?W) = ?W"
    using corrected_words_are_words by (rule py_split_join)
  also have "map correct_word ?W = ?W"
    by (simp add: correct_word_idem)
  finally show ?thesis by (simp add: clean_golf_text_eq)
qed

text \<open>
  Claim C8. The four examples of the specification: \<open>"O"\<close> is cleaned to \<open>"0"\<close>,
  \<open>"lI"\<close> to \<open>"11"\<close>, \<open>"CARD"\<close> (longer than 3) is left as it is, \<open>"  4   5 "\<close> becomes
  \<open>"4 5"\<close>; the empty string and every string of whitespace only are cleaned to the
  empty string.
\<close>

theorem clean_golf_text_examples:
  "clean_golf_text ''O'' = ''0'' \<and>
   clean_golf_text ''lI'' = ''11'' \<and>
   clean_golf_text ''CARD'' = ''CARD'' \<and>
   clean_golf_text ''  4   5 '' = ''4 5'' \<and>
   clean_golf_text [] = [] \<and>
   (list_all is_space s \<longrightarrow> clean_golf_text s = [])"
proof -
  have "clean_golf_text ''O'' = ''0''" by code_simp
  moreover have "clean_golf_text ''lI'' = ''11''" by code_simp
  moreover have "clean_golf_text ''CARD'' = ''CARD''" by code_simp
  moreover have "clean_golf_text ''  4   5 '' = ''4 5''" by code_simp
  moreover have "clean_golf_text [] = []" by (simp add: clean_golf_text_def)
  moreover have "list_all is_space s \<longrightarrow> clean_golf_text s = []"
    by (simp add: clean_golf_text_eq py_split_whitespace)
  ultimately show ?thesis by blast
qed

theorem clean_golf_text_examples_witness:
  "list_all is_space [CHR 0x20, CHR 0x09, CHR 0xA0, CHR 0x0A] \<and>
   clean_golf_text [CHR 0x20, CHR 0x09, CHR 0xA0, CHR 0x0A] = []"
proof -
  have h: "list_all is_space [CHR 0x20, CHR 0x09, CHR 0xA0, CHR 0x0A]"
    by (simp add: is_space_def)
  with clean_golf_text_examples [of "[CHR 0x20, CHR 0x09, CHR 0xA0, CHR 0x0A]"]
  show ?thesis by blast
qed

section \<open>Properties of the ranking\<close>

lemma py_sort_reverse_sorted:
  "sorted_wrt (\<lambda>a b. f b \<le> f a) (py_sort_reverse f xs)"
proof -
  have "sorted (map f (sort_key f (rev xs)))" by (rule sorted_sort_key)
  then have "sorted_wrt (\<lambda>a b. f a \<le> f b) (sort_key f (rev xs))"
    by (simp add: sorted_wrt_map)
  then show ?thesis by (simp add: py_sort_reverse_def sorted_wrt_rev)
qed

lemma py_sort_reverse_stable:
  "filter (\<lambda>x. f x = k) (py_sort_reverse f xs) = filter (\<lambda>x. f x = k) xs"
  by (simp add: py_sort_reverse_def sort_key_stable flip: rev_filter)

lemma py_sort_reverse_mset: "mset (py_sort_reverse f xs) = mset xs"
  by (simp add: py_sort_reverse_def)

text \<open>
  Claim C3. For every sequence of raw detections, \<open>extract_text_with_confidence\<close>
  returns as many detections as it is given, the cleaned detections themselves in
  another order (none is dropped, whatever its confidence or text); the result is
  sorted by non-increasing confidence, and the detections of equal confidence are in
  their input order.
\<close>

theorem extract_text_with_confidence_ranked:
  "length (extract_text_with_confidence results) = length results \<and>
   mset (extract_text_with_confidence results) = mset (map cleaned_detection_of_raw results) \<and>
   sorted_wrt (\<lambda>a b. det_confidence b \<le> det_confidence a)
     (extract_text_with_confidence results) \<and>
   (\<forall>c. filter (\<lambda>d. det_confidence d = c) (extract_text_with_confidence results) =
        filter (\<lambda>d. det_confidence d = c) (map cleaned_detection_of_raw results))"
proof -
  let ?ds = "map cleaned_detection_of_raw results"
  have out: "extract_text_with_confidence results = py_sort_reverse det_confidence ?ds"
    by (simp add: extract_text_with_confidence_def)
  have "length (py_sort_reverse det_confidence ?ds) = length results"
    by (simp add: py_sort_reverse_def)
  then show ?thesis
    unfolding out
    by (simp add: py_sort_reverse_sorted py_sort_reverse_stable py_sort_reverse_mset)
qed

section \<open>Properties of the score extraction\<close>

subsection \<open>The filter\<close>

lemma is_decimal_is_digit: "is_decimal c \<Longrightarrow> is_digit c"
  by (simp add: is_digit_def)

lemma py_int_decimal: "py_isdigit s \<Longrightarrow> list_all is_decimal s \<Longrightarrow> \<exists>n. py_int s = Inr n"
  by (simp add: py_int_def py_isdigit_def)

lemma py_int_raises:
  "\<not> list_all is_decimal s \<Longrightarrow>
   py_int s = Inl (ValueError (''invalid literal for int() with base 10: '' @ quoted s))"
  by (simp add: py_int_def)

lemma decimal_isdigit: "s \<noteq> [] \<Longrightarrow> list_all is_decimal s \<Longrightarrow> py_isdigit s"
  by (auto simp: py_isdigit_def list_all_iff is_decimal_is_digit)

lemma potential_scores_raises:
  "int_raises d \<Longrightarrow> potential_scores (d # ds) = Inl (int_error d)"
  by (simp add: int_raises_def int_error_def Let_def py_int_raises)

lemma potential_scores_keeps:
  assumes "valid_candidate d"
  shows "potential_scores (d # ds) =
           (case potential_scores ds of
              Inl e \<Rightarrow> Inl e
            | Inr rest \<Rightarrow> Inr (candidate_of d # rest))"
proof -
  let ?t = "py_strip (det_text d)"
  from assms obtain n where n: "py_int ?t = Inr n" "1 \<le> n" "n \<le> 12"
    and c: "det_confidence d > 0.5" and dec: "list_all is_decimal ?t"
    by (auto simp: valid_candidate_def Let_def split: sum.splits)
  from n(1) have ne: "?t \<noteq> []" by (auto simp: py_int_def split: if_splits)
  from ne dec have "py_isdigit ?t" by (rule decimal_isdigit)
  with n c show ?thesis by (simp add: Let_def candidate_of_def split: sum.splits)
qed

lemma potential_scores_drops:
  assumes "\<not> int_raises d" "\<not> valid_candidate d"
  shows "potential_scores (d # ds) = potential_scores ds"
proof (cases "py_isdigit (py_strip (det_text d))")
  case False
  then show ?thesis by (simp add: Let_def)
next
  case True
  with assms(1) have dec: "list_all is_decimal (py_strip (det_text d))"
    by (simp add: int_raises_def Let_def)
  with True obtain n where n: "py_int (py_strip (det_text d)) = Inr n"
    using py_int_decimal by blast
  with assms(2) dec have "\<not> (1 \<le> n \<and> n \<le> 12 \<and> det_confidence d > 0.5)"
    by (auto simp: valid_candidate_def Let_def)
  with True n show ?thesis by (auto simp: Let_def)
qed

lemma valid_not_raises: "valid_candidate d \<Longrightarrow> \<not> int_raises d"
  by (simp add: valid_candidate_def int_raises_def Let_def)

lemma potential_scores_eq:
  "potential_scores ds =
     (case find int_raises ds of
        None \<Rightarrow> Inr (map candidate_of (filter valid_candidate ds))
      | Some d \<Rightarrow> Inl (int_error d))"
proof (induction ds)
  case Nil
  then show ?case by simp
next
  case (Cons d ds)
  show ?case
  proof (cases "int_raises d")
    case True
    then show ?thesis
      by (simp add: potential_scores_raises del: potential_scores.simps)
  next
    case False
    note nr = this
    show ?thesis
    proof (cases "valid_candidate d")
      case True
      with nr Cons.IH show ?thesis
        by (simp add: potential_scores_keeps del: potential_scores.simps
              split: option.splits)
    next
      case False
      with nr Cons.IH show ?thesis
        by (simp add: potential_scores_drops del: potential_scores.simps
              split: option.splits)
    qed
  qed
qed

text \<open>
  Claim C4. The loop keeps a detection if and only if its trimmed text consists of
  decimal digits only, parses to an integer from 1 to 12, and its confidence is
  strictly greater than 0.5: when the loop ends, the candidates are those of exactly
  these detections, in order, and it ends unless \<open>int\<close> raises on a detection. A
  detection with text \<open>"13"\<close> or \<open>"0"\<close> is left out whatever its confidence, and so is
  one with confidence 0.5 whatever its text.
\<close>

theorem potential_scores_filter:
  "potential_scores ds =
     (case find int_raises ds of
        None \<Rightarrow> Inr (map candidate_of (filter valid_candidate ds))
      | Some d \<Rightarrow> Inl (int_error d)) \<and>
   (potential_scores [d] = Inr [candidate_of d]) = valid_candidate d \<and>
   potential_scores [\<lparr>det_text = ''13'', det_confidence = c, det_bbox = b\<rparr>] = Inr [] \<and>
   potential_scores [\<lparr>det_text = ''0'', det_confidence = c, det_bbox = b\<rparr>] = Inr [] \<and>
   potential_scores [\<lparr>det_text = ''12'', det_confidence = 0.5, det_bbox = b\<rparr>] = Inr [] \<and>
   \<not> valid_candidate \<lparr>det_text = t, det_confidence = 0.5, det_bbox = b\<rparr>"
proof -
  have one: "(potential_scores [d] = Inr [candidate_of d]) = valid_candidate d"
  proof (cases "int_raises d")
    case True
    then have "\<not> valid_candidate d" using valid_not_raises by blast
    with True show ?thesis by (simp add: potential_scores_eq del: potential_scores.simps)
  next
    case False
    then show ?thesis by (simp add: potential_scores_eq del: potential_scores.simps)
  qed
  have s13: "py_strip ''13'' = ''13''" and s0: "py_strip ''0'' = ''0''"
    and s12: "py_strip ''12'' = ''12''"
    by (simp_all add: py_strip_def is_space_def)
  have d13: "py_isdigit ''13''" "py_int ''13'' = Inr 13"
    and d0: "py_isdigit ''0''" "py_int ''0'' = Inr 0"
    and d12: "py_isdigit ''12''" "py_int ''12'' = Inr 12"
    by (simp_all add: py_isdigit_def py_int_def is_digit_def is_decimal_def)
  have "potential_scores [\<lparr>det_text = ''13'', det_confidence = c, det_bbox = b\<rparr>] = Inr []"
    by (simp add: s13 d13)
  moreover have "potential_scores [\<lparr>det_text = ''0'', det_confidence = c, det_bbox = b\<rparr>] = Inr []"
    by (simp add: s0 d0)
  moreover have "potential_scores [\<lparr>det_text = ''12'', det_confidence = 0.5, det_bbox = b\<rparr>] = Inr []"
    by (simp add: s12 d12)
  moreover have "\<not> valid_candidate \<lparr>det_text = t, det_confidence = 0.5, det_bbox = b\<rparr>"
    by (simp add: valid_candidate_def Let_def)
  ultimately show ?thesis using one potential_scores_eq [of ds] by blast
qed

theorem potential_scores_filter_witness:
  "potential_scores scattered_detections =
     Inr (map candidate_of (filter valid_candidate scattered_detections)) \<and>
   map cand_score (map candidate_of (filter valid_candidate scattered_detections)) = [7, 5, 3] \<and>
   valid_candidate (hd scattered_detections) \<and>
   potential_scores [hd scattered_detections] = Inr [candidate_of (hd scattered_detections)]"
proof -
  have no: "find int_raises scattered_detections = None" by code_simp
  have sc: "map cand_score (map candidate_of (filter valid_candidate scattered_detections)) = [7, 5, 3]"
    by code_simp
  have v: "valid_candidate (hd scattered_detections)" by code_simp
  from potential_scores_filter [of scattered_detections "hd scattered_detections"] no sc v
  show ?thesis by simp
qed

subsection \<open>Ordering, truncation and aggregation\<close>

lemma score_report_of_int:
  assumes "0 \<le> h"
  shows "score_report_of ds (JInt h) =
           (case potential_scores ds of
              Inl e \<Rightarrow> Inl e
            | Inr found \<Rightarrow>
                Inr (report_of (take (nat h) (sort_key position_key found)) (JInt h)))"
  using assms
  by (simp add: score_report_of_def slice_upto_def py_slice_to_def report_of_def np_mean_def
        Let_def split: sum.splits)

text \<open>
  Claim C5. For every sequence of detections and every integer \<open>h \<ge> 0\<close> given as
  \<open>expected_holes\<close>, the extraction returns a report unless \<open>int\<close> raises on a
  detection, and in the report: \<open>scores\<close> has at most \<open>h\<close> elements and at most as many as
  there are valid candidates; \<open>total\<close> is the sum of \<open>scores\<close>; \<open>holes_found\<close> is the
  length of \<open>scores\<close>; \<open>confidence\<close> is the arithmetic mean of the confidences of the
  candidates that contribute, the first \<open>h\<close> in reading order, and 0 when \<open>scores\<close> is
  empty.
\<close>

theorem score_report_properties:
  assumes "0 \<le> h"
  shows "case score_report_of ds (JInt h) of
           Inl e \<Rightarrow> find int_raises ds \<noteq> None
         | Inr r \<Rightarrow>
             length (rep_scores r) \<le> nat h \<and>
             length (rep_scores r) \<le> length (filter valid_candidate ds) \<and>
             rep_total r = sum_list (rep_scores r) \<and>
             rep_holes_found r = length (rep_scores r) \<and>
             (let contributing =
                    take (nat h)
                      (sort_key position_key (map candidate_of (filter valid_candidate ds)))
              in rep_scores r = map cand_score contributing \<and>
                 rep_confidence r =
                   (if rep_scores r = [] then 0
                    else sum_list (map cand_confidence contributing)
                           / real (length contributing)))"
proof (cases "find int_raises ds")
  case (Some d)
  with assms show ?thesis
    by (simp add: score_report_of_int potential_scores_eq)
next
  case None
  with assms show ?thesis
    by (simp add: score_report_of_int potential_scores_eq report_of_def Let_def)
qed

theorem score_report_properties_witness:
  "(0::int) \<le> 2 \<and>
   score_report_of scattered_detections (JInt 2) =
     Inr \<lparr>rep_scores = [3, 7], rep_total = 10, rep_confidence = 0.85, rep_holes_found = 2,
          rep_expected_holes = JInt 2\<rparr> \<and>
   length [3, 7 :: int] \<le> nat 2 \<and>
   length [3, 7 :: int] \<le> length (filter valid_candidate scattered_detections) \<and>
   map cand_confidence
     (take (nat 2)
        (sort_key position_key
           (map candidate_of (filter valid_candidate scattered_detections)))) = [0.8, 0.9]"
proof -
  have h: "(0::int) \<le> 2" by simp
  have r: "score_report_of scattered_detections (JInt 2) =
     Inr \<lparr>rep_scores = [3, 7], rep_total = 10, rep_confidence = 0.85, rep_holes_found = 2,
          rep_expected_holes = JInt 2\<rparr>"
    by code_simp
  have c: "map cand_confidence
     (take (nat 2)
        (sort_key position_key
           (map candidate_of (filter valid_candidate scattered_detections)))) = [0.8, 0.9]"
    by code_simp
  from score_report_properties [OF h, of scattered_detections] r c
  show ?thesis by (simp add: Let_def)
qed

lemma position_key_le:
  "position_key a \<le> position_key b \<longleftrightarrow>
     bbox_y (cand_bbox a) < bbox_y (cand_bbox b) \<or>
     (bbox_y (cand_bbox a) = bbox_y (cand_bbox b) \<and>
      bbox_x (cand_bbox a) \<le> bbox_x (cand_bbox b))"
  by (auto simp: position_key_def less_eq_prod_def)

lemma sorted_by_position:
  "sorted_wrt (\<lambda>a b. bbox_y (cand_bbox a) < bbox_y (cand_bbox b) \<or>
                 (bbox_y (cand_bbox a) = bbox_y (cand_bbox b) \<and>
                  bbox_x (cand_bbox a) \<le> bbox_x (cand_bbox b)))
     (sort_key position_key xs)"
proof -
  have "sorted (map position_key (sort_key position_key xs))" by (rule sorted_sort_key)
  then have "sorted_wrt (\<lambda>a b. position_key a \<le> position_key b) (sort_key position_key xs)"
    by (simp add: sorted_wrt_map)
  then show ?thesis by (simp add: position_key_le)
qed

text \<open>
  Claim C7. When the loop has found its candidates and \<open>expected_holes\<close> is an integer
  \<open>h \<ge> 0\<close>, the scores reported are those of the first \<open>h\<close> candidates (of all, when
  there are fewer) of the candidates put in reading order: ascending \<open>bbox.y\<close>, then
  ascending \<open>bbox.x\<close>, the candidates of equal position in their input order.
\<close>

theorem scores_in_reading_order:
  assumes "0 \<le> h" and "potential_scores ds = Inr found"
  shows "\<exists>ordered r.
           sorted_wrt (\<lambda>a b. bbox_y (cand_bbox a) < bbox_y (cand_bbox b) \<or>
                         (bbox_y (cand_bbox a) = bbox_y (cand_bbox b) \<and>
                          bbox_x (cand_bbox a) \<le> bbox_x (cand_bbox b))) ordered \<and>
           mset ordered = mset found \<and>
           (\<forall>k. filter (\<lambda>c. position_key c = k) ordered =
                filter (\<lambda>c. position_key c = k) found) \<and>
           score_report_of ds (JInt h) = Inr r \<and>
           rep_scores r = map cand_score (take (nat h) ordered)"
proof -
  let ?ordered = "sort_key position_key found"
  let ?r = "report_of (take (nat h) ?ordered) (JInt h)"
  have "score_report_of ds (JInt h) = Inr ?r"
    using assms by (simp add: score_report_of_int)
  moreover have "rep_scores ?r = map cand_score (take (nat h) ?ordered)"
    by (simp add: report_of_def)
  moreover have "mset ?ordered = mset found" by simp
  moreover have "\<forall>k. filter (\<lambda>c. position_key c = k) ?ordered =
                      filter (\<lambda>c. position_key c = k) found"
    by (simp add: sort_key_stable)
  ultimately show ?thesis using sorted_by_position [of found] by blast
qed

theorem scores_in_reading_order_witness:
  "(0::int) \<le> 2 \<and>
   potential_scores scattered_detections =
     Inr (map candidate_of (filter valid_candidate scattered_detections)) \<and>
   map cand_score (map candidate_of (filter valid_candidate scattered_detections)) = [7, 5, 3] \<and>
   (\<exists>ordered r.
      sorted_wrt (\<lambda>a b. bbox_y (cand_bbox a) < bbox_y (cand_bbox b) \<or>
                    (bbox_y (cand_bbox a) = bbox_y (cand_bbox b) \<and>
                     bbox_x (cand_bbox a) \<le> bbox_x (cand_bbox b))) ordered \<and>
      mset ordered = mset (map candidate_of (filter valid_candidate scattered_detections)) \<and>
      score_report_of scattered_detections (JInt 2) = Inr r \<and>
      rep_scores r = map cand_score (take (nat 2) ordered) \<and>
      rep_scores r = [3, 7])"
proof -
  have h: "(0::int) \<le> 2" by simp
  have f: "potential_scores scattered_detections =
             Inr (map candidate_of (filter valid_candidate scattered_detections))"
    by code_simp
  have s: "map cand_score (map candidate_of (filter valid_candidate scattered_detections)) = [7, 5, 3]"
    by code_simp
  have r: "map_sum id rep_scores (score_report_of scattered_detections (JInt 2)) = Inr [3, 7]"
    by code_simp
  from scores_in_reading_order [OF h f] obtain ordered r' where
    o: "sorted_wrt (\<lambda>a b. bbox_y (cand_bbox a) < bbox_y (cand_bbox b) \<or>
                    (bbox_y (cand_bbox a) = bbox_y (cand_bbox b) \<and>
                     bbox_x (cand_bbox a) \<le> bbox_x (cand_bbox b))) ordered"
      "mset ordered = mset (map candidate_of (filter valid_candidate scattered_detections))"
      "score_report_of scattered_detections (JInt 2) = Inr r'"
      "rep_scores r' = map cand_score (take (nat 2) ordered)"
    by blast
  from o(3) r have "rep_scores r' = [3, 7]" by simp
  with o h f s show ?thesis by blast
qed

text \<open>
  Claim C1, as it is stated, at the three detections of the example with
  \<open>expected_holes = 2\<close>: the text \<open>"S"\<close> is not cleaned on the way to the filter, it
  fails the digit test, and the report is \<open>scores = [4]\<close>, \<open>total = 4\<close>,
  \<open>confidence = 0.9\<close>, \<open>holes_found = 1\<close>, not the one stated.
\<close>

theorem example_not_cleaned:
  "score_report_of example_detections (JInt 2) =
     Inr \<lparr>rep_scores = [4], rep_total = 4, rep_confidence = 0.9, rep_holes_found = 1,
          rep_expected_holes = JInt 2\<rparr> \<and>
   score_report_of example_detections (JInt 2) \<noteq>
     Inr \<lparr>rep_scores = [4, 5], rep_total = 9, rep_confidence = 0.8, rep_holes_found = 2,
          rep_expected_holes = JInt 2\<rparr>"
  by code_simp

text \<open>
  Claim C1, amended. When the texts of the three detections are cleaned first, which
  turns \<open>"S"\<close> into \<open>"5"\<close>, the extraction with \<open>expected_holes = 2\<close> returns
  \<open>scores = [4, 5]\<close>, \<open>total = 9\<close>, \<open>confidence = 0.8\<close>, \<open>holes_found = 2\<close>; on the
  detections as they are given it returns \<open>scores = [4]\<close>, \<open>total = 4\<close>,
  \<open>confidence = 0.9\<close>, \<open>holes_found = 1\<close>.
\<close>

theorem example_cleaned_first:
  "map det_text (map cleaned example_detections) = [''4'', ''5'', ''par''] \<and>
   score_report_of (map cleaned example_detections) (JInt 2) =
     Inr \<lparr>rep_scores = [4, 5], rep_total = 9, rep_confidence = 0.8, rep_holes_found = 2,
          rep_expected_holes = JInt 2\<rparr> \<and>
   score_report_of example_detections (JInt 2) =
     Inr \<lparr>rep_scores = [4], rep_total = 4, rep_confidence = 0.9, rep_holes_found = 1,
          rep_expected_holes = JInt 2\<rparr>"
  by code_simp

section \<open>Properties of the request handlers\<close>

lemma missing_image_response: "is_missing_image_response (missing_image t0 t1) (t1 - t0)"
  by (simp add: is_missing_image_response_def missing_image_def)

lemma image_seen_missing_check:
  "image_seen_missing data \<Longrightarrow> \<not> py_truthy data \<or> py_in ''image'' data = Inr False"
  by (cases data) auto

lemma image_seen_missing_lacks: "image_seen_missing data \<Longrightarrow> lacks_image (Inr data)"
  by (cases data) (simp_all add: lacks_image_def)

text \<open>
  Claim C9, as it is stated, fails at bodies without the field \<open>image\<close> that the test
  of the handlers does not recognise. For the JSON document \<open>5\<close> the test \<open>in\<close>
  raises, and for a body that is no JSON \<open>request.json\<close> raises; both variants answer
  with 500 and the message of the \<open>except\<close>.
\<close>

theorem image_less_body_500:
  "lacks_image (Inr (JInt 5)) \<and>
   perform_ocr (\<lambda>v. Inr ()) (\<lambda>i. Inr []) 3 5 (Inr (JInt 5)) =
     ResponseStatus
       (ErrorBody (''OCR processing failed: argument of type '' @ quoted ''int''
                     @ '' is not iterable'') 2) 500 \<and>
   http_status
     (perform_ocr_rv2 (\<lambda>v. Inr ()) (\<lambda>i. Inr ()) (\<lambda>i. Inr []) 3 5 (Inr (JInt 5))) = 500 \<and>
   lacks_image (Inl (OtherError ''415 Unsupported Media Type'')) \<and>
   perform_ocr (\<lambda>v. Inr ()) (\<lambda>i. Inr []) 3 5
       (Inl (OtherError ''415 Unsupported Media Type'')) =
     ResponseStatus
       (ErrorBody ''OCR processing failed: 415 Unsupported Media Type'' 2) 500 \<and>
   http_status
     (perform_ocr_rv2 (\<lambda>v. Inr ()) (\<lambda>i. Inr ()) (\<lambda>i. Inr []) 3 5
        (Inl (OtherError ''415 Unsupported Media Type''))) = 500"
  by (simp add: lacks_image_def perform_ocr_def perform_ocr_rv2_def ocr_failed_def quoted_def)

text \<open>
  Claim C9, amended. For every request to \<open>/ocr\<close> whose body parses as JSON and is
  \<open>null\<close>, \<open>false\<close>, a zero, an object without the key \<open>image\<close>, a string in which
  \<open>image\<close> does not occur or an array without the element \<open>"image"\<close>, in both variants
  of the server, the response has status 400, \<open>success\<close> false, the error message
  \<open>Missing image data in request\<close>, a field \<open>processing_time\<close> and no field
  \<open>detections\<close>. Each of these bodies is a body without the field \<open>image\<close>.
\<close>

theorem missing_image_400:
  assumes "image_seen_missing data"
  shows "lacks_image (Inr data) \<and>
         is_missing_image_response
           (perform_ocr decode readtext start_time now (Inr data)) (now - start_time) \<and>
         is_missing_image_response
           (perform_ocr_rv2 decode2 preprocess readtext2 start_time now (Inr data))
           (now - start_time)"
proof -
  from assms have "\<not> py_truthy data \<or> py_in ''image'' data = Inr False"
    by (rule image_seen_missing_check)
  then have "perform_ocr decode readtext start_time now (Inr data) =
               missing_image start_time now"
    and "perform_ocr_rv2 decode2 preprocess readtext2 start_time now (Inr data) =
               missing_image start_time now"
    by (auto simp: perform_ocr_def perform_ocr_rv2_def)
  with assms show ?thesis
    by (simp add: missing_image_response image_seen_missing_lacks)
qed

theorem missing_image_400_witness:
  "image_seen_missing (JObj [(''expected_holes'', JInt 9)]) \<and>
   lacks_image (Inr (JObj [(''expected_holes'', JInt 9)])) \<and>
   http_status
     (perform_ocr (\<lambda>v. Inr ()) (\<lambda>i. Inr []) 3 5
        (Inr (JObj [(''expected_holes'', JInt 9)]))) = 400 \<and>
   http_body
     (perform_ocr_rv2 (\<lambda>v. Inr ()) (\<lambda>i. Inr ()) (\<lambda>i. Inr []) 3 5
        (Inr (JObj [(''expected_holes'', JInt 9)])))
     = ErrorBody ''Missing image data in request'' 2"
proof -
  have h: "image_seen_missing (JObj [(''expected_holes'', JInt 9)])"
    by simp
  from missing_image_400 [OF h, of "\<lambda>v. Inr ()" "\<lambda>i. Inr []" 3 5
                            "\<lambda>v. Inr ()" "\<lambda>i. Inr ()" "\<lambda>i. Inr []"]
  show ?thesis using h by (simp add: is_missing_image_response_def)
qed

lemma perform_ocr_cases:
  "(\<exists>b. perform_ocr decode readtext t0 t1 request_json = Response b \<and> body_success b) \<or>
   (\<exists>b code. perform_ocr decode readtext t0 t1 request_json = ResponseStatus b code \<and>
      \<not> body_success b \<and> (code = 400 \<or> code = 500))"
  by (simp add: perform_ocr_def missing_image_def ocr_failed_def Let_def
        split: sum.splits)

lemma extract_scores_forwards_body:
  assumes "\<not> body_success (http_body (perform_ocr decode readtext t0 t1 request_json))"
  shows "extract_scores decode readtext t0 t1 s0 s1 request_json =
           Dict (http_body (perform_ocr decode readtext t0 t1 request_json))"
  using assms perform_ocr_cases [of decode readtext t0 t1 request_json]
  by (auto simp: extract_scores_def ocr_data_of_def Let_def)

text \<open>
  Claim C2 says that a failure of the OCR step is returned by \<open>/extract_scores\<close> as
  \<open>/ocr\<close> returns it, the status 400 or 500 included. The code returns the dictionary
  alone: the body is the one of \<open>/ocr\<close>, and the status is 200. Here for a body
  without \<open>image\<close>, which \<open>/ocr\<close> answers with 400, and for an image that does not
  decode, which \<open>/ocr\<close> of this variant answers with 500.
\<close>

theorem ocr_failure_returned_with_200:
  "perform_ocr decode readtext t0 t1 (Inr (JObj [(''expected_holes'', JInt 2)])) =
     ResponseStatus (ErrorBody ''Missing image data in request'' (t1 - t0)) 400 \<and>
   extract_scores decode readtext t0 t1 s0 s1 (Inr (JObj [(''expected_holes'', JInt 2)])) =
     Dict (ErrorBody ''Missing image data in request'' (t1 - t0)) \<and>
   http_status
     (extract_scores decode readtext t0 t1 s0 s1
        (Inr (JObj [(''expected_holes'', JInt 2)]))) = 200 \<and>
   perform_ocr (\<lambda>v. Inl (OtherError ''Incorrect padding'')) readtext t0 t1
       (Inr (JObj [(''image'', JStr ''x'')])) =
     ResponseStatus
       (ErrorBody ''OCR processing failed: Incorrect padding'' (t1 - t0)) 500 \<and>
   extract_scores (\<lambda>v. Inl (OtherError ''Incorrect padding'')) readtext t0 t1 s0 s1
       (Inr (JObj [(''image'', JStr ''x'')])) =
     Dict (ErrorBody ''OCR processing failed: Incorrect padding'' (t1 - t0)) \<and>
   http_status
     (extract_scores (\<lambda>v. Inl (OtherError ''Incorrect padding'')) readtext t0 t1 s0 s1
        (Inr (JObj [(''image'', JStr ''x'')]))) = 200"
  by (simp add: perform_ocr_def extract_scores_def missing_image_def ocr_failed_def
        ocr_data_of_def)

text \<open>
  Claim C10. There is an input on which the filter raises instead of leaving a
  detection out: the text of the superscript two passes \<open>isdigit\<close>, \<open>int\<close> raises
  \<open>ValueError\<close> on it, the confidence 0.9 is greater than 0.5, and when \<open>/ocr\<close> succeeds
  with this detection \<open>/extract_scores\<close> answers with status 500 and the failure body.
\<close>

theorem superscript_digit_500:
  "py_isdigit (py_strip (raw_text superscript_two)) \<and>
   py_int (py_strip (raw_text superscript_two)) =
     Inl (ValueError (''invalid literal for int() with base 10: '' @ quoted [CHR 0xB2])) \<and>
   raw_confidence superscript_two > 0.5 \<and>
   perform_ocr (\<lambda>v. Inr ()) (\<lambda>i. Inr [superscript_two]) 0 1
       (Inr (JObj [(''image'', JStr ''aGk='')])) =
     Response (OcrBody [detection_of_raw superscript_two] 1 ''Found 1 text elements'') \<and>
   extract_scores (\<lambda>v. Inr ()) (\<lambda>i. Inr [superscript_two]) 0 1 0 2
       (Inr (JObj [(''image'', JStr ''aGk='')])) =
     ResponseStatus
       (ErrorBody (''Score extraction failed: invalid literal for int() with base 10: ''
                     @ quoted [CHR 0xB2]) 2) 500"
  by code_simp

end
